theory Spec2Isabelle
  imports Main
begin

section \<open>SiliconFlowProvider: data model\<close>

text \<open>
  The development embeds \<^verbatim>\<open>apps/agent-tars/src/main/llmProvider/providers/SiliconFlowProvider.ts\<close>.
  The class has a constructor, the protected method \<^verbatim>\<open>formatMessages\<close> and the three
  request operations \<^verbatim>\<open>askLLMText\<close>, \<^verbatim>\<open>askTool\<close> and \<^verbatim>\<open>askLLMTextStream\<close>.
\<close>

subsection \<open>Messages\<close>

text \<open>
  \<^verbatim>\<open>Message\<close> is imported from another package. The provider reads only the properties
  \<^verbatim>\<open>role\<close> and \<^verbatim>\<open>content\<close>; their types are parameters, and every other property of a
  message lives in the extension slot of the record.
\<close>

record ('r, 'c) message =
  role :: 'r
  content :: 'c

text \<open>
  \<^verbatim>\<open>
  protected formatMessages(messages: Message[]): any[] {
    return messages.map((msg) => ({
      role: msg.role,
      content: msg.content,
    }));
  }
  \<close>
\<close>

definition formatMessages :: "('r, 'c, 'm) message_scheme list \<Rightarrow> ('r, 'c) message list" where
  "formatMessages messages = map (\<lambda>msg. \<lparr>role = role msg, content = content msg\<rparr>) messages"

subsection \<open>Thrown values and completions\<close>

text \<open>
  A \<^verbatim>\<open>catch (error: unknown)\<close> clause receives any value. The handlers of the provider
  look at three things only: whether the value is an instance of \<^verbatim>\<open>Error\<close>, its
  \<^verbatim>\<open>name\<close> and \<^verbatim>\<open>message\<close> when it is one, and its string conversion, which can itself
  throw. The model has four kinds of thrown values:
  \<^item> \<open>Error_instance name msg\<close>: an instance of \<^verbatim>\<open>Error\<close> whose \<^verbatim>\<open>name\<close> and \<^verbatim>\<open>message\<close> are the
    given strings and whose string conversion is \<^verbatim>\<open>Error.prototype.toString\<close>, as
    \<^verbatim>\<open>new Error(msg)\<close>, the built-in error classes and \<^verbatim>\<open>DOMException\<close> give them;
  \<^item> \<open>Non_error s\<close>: a value that is not an \<^verbatim>\<open>Error\<close> and converts to the string \<open>s\<close>
    (a string, a number, a boolean, \<^verbatim>\<open>null\<close>, \<^verbatim>\<open>undefined\<close>, an ordinary object);
  \<^item> \<open>Symbol_value d\<close>: a \<^verbatim>\<open>Symbol\<close> with description \<open>d\<close>, which \<^verbatim>\<open>String()\<close> converts and a
    template literal refuses to convert;
  \<^item> \<open>No_primitive_value\<close>: an object with no conversion to a primitive, such as
    \<^verbatim>\<open>Object.create(null)\<close>, on which both conversions throw.
\<close>

datatype js_value =
    Error_instance string string
  | Non_error string
  | Symbol_value string
  | No_primitive_value

text \<open>\<^verbatim>\<open>new Error(msg)\<close>: an instance whose name is \<^verbatim>\<open>Error\<close>.\<close>

definition new_Error :: "string \<Rightarrow> js_value" where
  "new_Error msg = Error_instance ''Error'' msg"

text \<open>
  The \<^verbatim>\<open>TypeError\<close> that the language raises when a conversion fails. The message texts
  below are those of V8.
\<close>

definition TypeError :: "string \<Rightarrow> js_value" where
  "TypeError msg = Error_instance ''TypeError'' msg"

text \<open>An operation, and a conversion, either returns a value or throws one.\<close>

datatype 'a completion = Return 'a | Throw js_value

text \<open>\<^verbatim>\<open>Error.prototype.toString\<close> on an instance with the given name and message.\<close>

definition Error_toString :: "string \<Rightarrow> string \<Rightarrow> string" where
  "Error_toString name msg =
     (if name = [] then msg else if msg = [] then name else name @ '': '' @ msg)"

text \<open>The conversion that the template literal \<^verbatim>\<open>${error}\<close> applies to the value.\<close>

fun template_literal :: "js_value \<Rightarrow> string completion" where
  "template_literal (Error_instance name msg) = Return (Error_toString name msg)"
| "template_literal (Non_error s) = Return s"
| "template_literal (Symbol_value d) = Throw (TypeError ''Cannot convert a Symbol value to a string'')"
| "template_literal No_primitive_value = Throw (TypeError ''Cannot convert object to primitive value'')"

text \<open>The conversion \<^verbatim>\<open>String(error)\<close>.\<close>

fun String_call :: "js_value \<Rightarrow> string completion" where
  "String_call (Error_instance name msg) = Return (Error_toString name msg)"
| "String_call (Non_error s) = Return s"
| "String_call (Symbol_value d) = Return (''Symbol('' @ d @ '')'')"
| "String_call No_primitive_value = Throw (TypeError ''Cannot convert object to primitive value'')"

subsection \<open>Substring test\<close>

text \<open>\<^verbatim>\<open>String.prototype.includes\<close>: the search string occurs contiguously in the subject.\<close>

fun starts_with :: "string \<Rightarrow> string \<Rightarrow> bool" where
  "starts_with s [] = True"
| "starts_with [] (c # cs) = False"
| "starts_with (d # ds) (c # cs) = (d = c \<and> starts_with ds cs)"

fun str_includes :: "string \<Rightarrow> string \<Rightarrow> bool" where
  "str_includes [] search = (search = [])"
| "str_includes (c # cs) search = (starts_with (c # cs) search \<or> str_includes cs search)"


subsection \<open>The request registry\<close>

text \<open>
  \<^verbatim>\<open>this.activeRequests\<close> is inherited; the operations call \<^verbatim>\<open>set(requestId, controller)\<close> on
  it, so it is a map from request identifiers to controllers. A controller is an object with
  identity: the model keeps the \<^verbatim>\<open>signal.aborted\<close> flag of every controller created so far
  in a store, and a controller is its index in the store.
\<close>

type_synonym request_id = string

type_synonym controller = nat

record provider =
  activeRequests :: "request_id \<rightharpoonup> controller"
  signals :: "bool list"

text \<open>\<^verbatim>\<open>new AbortController()\<close>: a fresh controller whose signal is not aborted.\<close>

definition new_AbortController :: "provider \<Rightarrow> controller \<times> provider" where
  "new_AbortController st = (length (signals st), st\<lparr>signals := signals st @ [False]\<rparr>)"

text \<open>\<^verbatim>\<open>this.activeRequests.set(requestId, controller)\<close>: an entry under the same key is replaced.\<close>

definition activeRequests_set :: "request_id \<Rightarrow> controller \<Rightarrow> provider \<Rightarrow> provider" where
  "activeRequests_set requestId c st = st\<lparr>activeRequests := (activeRequests st)(requestId \<mapsto> c)\<rparr>"

text \<open>\<^verbatim>\<open>controller.abort()\<close> and \<^verbatim>\<open>controller.signal.aborted\<close>.\<close>

definition abort :: "controller \<Rightarrow> provider \<Rightarrow> provider" where
  "abort c st = st\<lparr>signals := (signals st)[c := True]\<rparr>"

definition signal_aborted :: "controller \<Rightarrow> provider \<Rightarrow> bool" where
  "signal_aborted c st = (c < length (signals st) \<and> signals st ! c)"

text \<open>
  Modelled from the spec: \<^verbatim>\<open>cleanupRequest\<close> is a method of the base provider class, whose
  source is not available here. The specification describes it as the registry's
  release operation: it removes the entry of the identifier unconditionally and is
  idempotent.
\<close>

definition cleanupRequest :: "request_id \<Rightarrow> provider \<Rightarrow> provider" where
  "cleanupRequest requestId st = st\<lparr>activeRequests := (activeRequests st)(requestId := None)\<rparr>"

text \<open>
  The first statements of every operation, after the messages are formatted:
  \<^verbatim>\<open>
  const controller = new AbortController();
  this.activeRequests.set(requestId, controller);
  \<close>
\<close>

definition register_request :: "request_id \<Rightarrow> provider \<Rightarrow> controller \<times> provider" where
  "register_request requestId st =
     (let (c, st1) = new_AbortController st
      in (c, activeRequests_set requestId c st1))"

subsection \<open>The backend call site\<close>

text \<open>
  In each operation the call of the backend is a placeholder: the statement
  \<^verbatim>\<open>await this.client.chat.completions.create(...)\<close> is commented out. What can happen at
  that point is a parameter of the model: while the call is pending the request may be
  cancelled from outside, which aborts the controller registered for it, and the call then
  either resolves or rejects with a thrown value. The source as it stands behaves as
  \<open>\<lparr>cancel_signalled = False, settled = Resolves\<rparr>\<close>.
\<close>

datatype backend_call = Resolves | Rejects js_value

record call_site =
  cancel_signalled :: bool
  settled :: backend_call

definition pending_call :: "call_site \<Rightarrow> controller \<Rightarrow> provider \<Rightarrow> provider" where
  "pending_call site c st = (if cancel_signalled site then abort c st else st)"

section \<open>The operations\<close>

subsection \<open>askLLMText\<close>

text \<open>
  \<^verbatim>\<open>
  } catch (error: unknown) {
    this.cleanupRequest(requestId);
    if (
      error instanceof Error &&
      (error.name === 'AbortError' || error.message.includes('aborted'))
    ) {
      return '';
    }
    throw new Error(`Failed to get response from SiliconFlow: ${error}`);
  }
  \<close>
\<close>

definition askLLMText_catch :: "js_value \<Rightarrow> request_id \<Rightarrow> provider \<Rightarrow> string completion \<times> provider" where
  "askLLMText_catch error requestId st =
     (let st' = cleanupRequest requestId st;
          failure = (case template_literal error of
                       Return converted \<Rightarrow>
                         Throw (new_Error (''Failed to get response from SiliconFlow: '' @ converted))
                     | Throw type_error \<Rightarrow> Throw type_error)
      in case error of
           Error_instance name msg \<Rightarrow>
             if name = ''AbortError'' \<or> str_includes msg ''aborted''
             then (Return [], st')
             else (failure, st')
         | _ \<Rightarrow> (failure, st'))"

text \<open>
  \<^verbatim>\<open>
  try {
    const formattedMessages = this.formatMessages(messages);
    const controller = new AbortController();
    this.activeRequests.set(requestId, controller);
    // (backend call)
    if (controller.signal.aborted) {
      throw new Error('Request aborted');
    }
    this.cleanupRequest(requestId);
    return '';
  } catch ...
  \<close>
\<close>

definition askLLMText ::
  "call_site \<Rightarrow> ('r, 'c, 'm) message_scheme list \<Rightarrow> request_id \<Rightarrow> provider
     \<Rightarrow> string completion \<times> provider" where
  "askLLMText site messages requestId st =
     (let formattedMessages = formatMessages messages;
          (c, st1) = register_request requestId st;
          st2 = pending_call site c st1
      in case settled site of
           Rejects error \<Rightarrow> askLLMText_catch error requestId st2
         | Resolves \<Rightarrow>
             if signal_aborted c st2
             then askLLMText_catch (new_Error ''Request aborted'') requestId st2
             else (Return [], cleanupRequest requestId st2))"

subsection \<open>askTool\<close>

text \<open>
  Modelled from the spec: the type \<^verbatim>\<open>ToolChoice\<close> is declared in the provider interface
  file, which is not available here. The specification gives it as the
  enumeration auto, none, forced (tool name).
\<close>

datatype tool_choice = Auto | No_tool | Forced string

text \<open>
  \<^verbatim>\<open>LLMResponse\<close>: the operation returns the object literals \<^verbatim>\<open>{ content: '', tool_calls: [] }\<close>
  and \<^verbatim>\<open>{ content: '' }\<close> under this type, so \<^verbatim>\<open>tool_calls\<close> is a property that may be
  absent. The type of a tool call is a parameter.
\<close>

record 'tc llm_response =
  content :: string
  tool_calls :: "'tc list option"

text \<open>
  \<^verbatim>\<open>
  } catch (error: unknown) {
    this.cleanupRequest(requestId);
    const errorMessage =
      error instanceof Error ? error.message : String(error);
    const errorName = error instanceof Error ? error.name : 'Unknown';

    if (errorName === 'AbortError' || errorMessage.includes('aborted')) {
      return { content: '' };
    }
    throw new Error(
      `Failed to get tool response from SiliconFlow: ${errorMessage}`,
    );
  }
  \<close>
\<close>

definition askTool_catch ::
  "js_value \<Rightarrow> request_id \<Rightarrow> provider \<Rightarrow> 'tc llm_response completion \<times> provider" where
  "askTool_catch error requestId st =
     (let st' = cleanupRequest requestId st
      in case (case error of Error_instance name msg \<Rightarrow> Return msg | _ \<Rightarrow> String_call error) of
           Throw type_error \<Rightarrow> (Throw type_error, st')
         | Return errorMessage \<Rightarrow>
             (let errorName = (case error of Error_instance name msg \<Rightarrow> name | _ \<Rightarrow> ''Unknown'')
              in if errorName = ''AbortError'' \<or> str_includes errorMessage ''aborted''
                 then (Return \<lparr>content = [], tool_calls = None\<rparr>, st')
                 else (Throw (new_Error (''Failed to get tool response from SiliconFlow: '' @ errorMessage)),
                       st')))"

text \<open>
  \<^verbatim>\<open>
  async askTool({ messages, tools, requestId, toolChoice = 'auto' }) {
    try {
      const formattedMessages = this.formatMessages(messages);
      const controller = new AbortController();
      this.activeRequests.set(requestId, controller);
      // (backend call)
      if (controller.signal.aborted) {
        throw new Error('Request aborted');
      }
      this.cleanupRequest(requestId);
      return { content: '', tool_calls: [] };
    } catch ...
  \<close>
  The argument \<open>toolChoice\<close> is \<open>None\<close> when the caller leaves the property out.
\<close>

definition askTool ::
  "call_site \<Rightarrow> ('r, 'c, 'm) message_scheme list \<Rightarrow> 't list \<Rightarrow> request_id \<Rightarrow> tool_choice option
     \<Rightarrow> provider \<Rightarrow> 'tc llm_response completion \<times> provider" where
  "askTool site messages tools requestId toolChoice st =
     (let toolChoice' = (case toolChoice of None \<Rightarrow> Auto | Some choice \<Rightarrow> choice);
          formattedMessages = formatMessages messages;
          (c, st1) = register_request requestId st;
          st2 = pending_call site c st1
      in case settled site of
           Rejects error \<Rightarrow> askTool_catch error requestId st2
         | Resolves \<Rightarrow>
             if signal_aborted c st2
             then askTool_catch (new_Error ''Request aborted'') requestId st2
             else (Return \<lparr>content = [], tool_calls = Some []\<rparr>, cleanupRequest requestId st2))"

subsection \<open>askLLMTextStream\<close>

text \<open>
  The operation is an async generator. Its body contains no \<^verbatim>\<open>yield\<close>: the loop that
  would yield the fragments is commented out together with the backend call. A run of the
  body is described by the fragments it yields before it finishes and by how it finishes.
\<close>

record stream_run =
  fragments :: "string list"
  finished :: "unit completion"

text \<open>
  \<^verbatim>\<open>
  } catch (error: unknown) {
    this.cleanupRequest(requestId);
    if (
      error instanceof Error &&
      (error.name === 'AbortError' || error.message.includes('aborted'))
    ) {
      return;
    }
    throw new Error(
      `Failed to get stream response from SiliconFlow: ${error}`,
    );
  }
  \<close>
\<close>

definition askLLMTextStream_catch :: "js_value \<Rightarrow> request_id \<Rightarrow> provider \<Rightarrow> stream_run \<times> provider" where
  "askLLMTextStream_catch error requestId st =
     (let st' = cleanupRequest requestId st;
          failure = (case template_literal error of
                       Return converted \<Rightarrow>
                         Throw (new_Error (''Failed to get stream response from SiliconFlow: '' @ converted))
                     | Throw type_error \<Rightarrow> Throw type_error)
      in case error of
           Error_instance name msg \<Rightarrow>
             if name = ''AbortError'' \<or> str_includes msg ''aborted''
             then (\<lparr>fragments = [], finished = Return ()\<rparr>, st')
             else (\<lparr>fragments = [], finished = failure\<rparr>, st')
         | _ \<Rightarrow> (\<lparr>fragments = [], finished = failure\<rparr>, st'))"

text \<open>
  \<^verbatim>\<open>
  try {
    const formattedMessages = this.formatMessages(messages);
    const controller = new AbortController();
    this.activeRequests.set(requestId, controller);
    // (backend call and loop over the stream)
    this.cleanupRequest(requestId);
  } catch ...
  \<close>
  The body does not read the signal of its controller.
\<close>

definition askLLMTextStream ::
  "call_site \<Rightarrow> ('r, 'c, 'm) message_scheme list \<Rightarrow> request_id \<Rightarrow> provider
     \<Rightarrow> stream_run \<times> provider" where
  "askLLMTextStream site messages requestId st =
     (let formattedMessages = formatMessages messages;
          (c, st1) = register_request requestId st;
          st2 = pending_call site c st1
      in case settled site of
           Rejects error \<Rightarrow> askLLMTextStream_catch error requestId st2
         | Resolves \<Rightarrow> (\<lparr>fragments = [], finished = Return ()\<rparr>, cleanupRequest requestId st2))"

text \<open>
  The consumer's side of the generator. Calling the operation creates a generator object
  and runs nothing; the first \<^verbatim>\<open>next()\<close> runs the body, which has no suspension point and
  so runs to its end; \<^verbatim>\<open>return()\<close> closes the generator, and on a generator that was never
  started the body is not run at all. A consumer that leaves a \<^verbatim>\<open>for await\<close> loop early
  calls \<^verbatim>\<open>return()\<close>.
\<close>

datatype generator_state = Suspended_start | Completed

datatype consumer_call = Call_next | Call_return

datatype iterator_result = Done | Rejected js_value

definition generator_call ::
  "call_site \<Rightarrow> ('r, 'c, 'm) message_scheme list \<Rightarrow> request_id \<Rightarrow> consumer_call
     \<Rightarrow> generator_state \<times> provider \<Rightarrow> iterator_result \<times> generator_state \<times> provider" where
  "generator_call site messages requestId call gst =
     (case gst of
        (Completed, st) \<Rightarrow> (Done, Completed, st)
      | (Suspended_start, st) \<Rightarrow>
          (case call of
             Call_return \<Rightarrow> (Done, Completed, st)
           | Call_next \<Rightarrow>
               (case askLLMTextStream site messages requestId st of
                  (run, st') \<Rightarrow>
                    (case finished run of
                       Return u \<Rightarrow> (Done, Completed, st')
                     | Throw e \<Rightarrow> (Rejected e, Completed, st')))))"

fun consume ::
  "call_site \<Rightarrow> ('r, 'c, 'm) message_scheme list \<Rightarrow> request_id \<Rightarrow> consumer_call list
     \<Rightarrow> generator_state \<times> provider \<Rightarrow> generator_state \<times> provider" where
  "consume site messages requestId [] gst = gst"
| "consume site messages requestId (call # calls) gst =
     consume site messages requestId calls (snd (generator_call site messages requestId call gst))"

subsection \<open>The constructor\<close>

text \<open>
  \<^verbatim>\<open>LLMConfig\<close> is declared in the provider interface file. The constructor reads the
  properties \<^verbatim>\<open>baseURL\<close> and \<^verbatim>\<open>model\<close>, each a string or undefined, and copies every
  other property unchanged.
\<close>

record 'v llm_config =
  baseURL :: "string option"
  model :: "string option"
  other_properties :: "string \<rightharpoonup> 'v"

text \<open>
  \<^verbatim>\<open>a || b\<close> on values that are strings or undefined: \<^verbatim>\<open>a\<close> when it is truthy, that is a
  string that is not empty, and \<^verbatim>\<open>b\<close> otherwise.
\<close>

definition js_or :: "string option \<Rightarrow> string option \<Rightarrow> string option" where
  "js_or a b = (case a of None \<Rightarrow> b | Some s \<Rightarrow> if s = [] then b else a)"

text \<open>
  \<^verbatim>\<open>
  constructor(config: LLMConfig = {}) {
    super({
      ...config,
      baseURL:
        config.baseURL ||
        process.env.SILICONFLOW_API_BASE_URL ||
        'https://api.siliconflow.com/v1',
      model:
        config.model ||
        process.env.SILICONFLOW_DEFAULT_MODEL ||
        'siliconflow-default',
    });
  }
  \<close>
  The model gives the object that the constructor hands to the constructor of the parent
  class, from the process environment and the argument (\<open>None\<close> when it is left out).
\<close>

definition SiliconFlowProvider_constructor ::
  "(string \<rightharpoonup> string) \<Rightarrow> 'v llm_config option \<Rightarrow> 'v llm_config" where
  "SiliconFlowProvider_constructor env arg =
     (let config = (case arg of
                      None \<Rightarrow> \<lparr>baseURL = None, model = None, other_properties = Map.empty\<rparr>
                    | Some given \<Rightarrow> given)
      in config\<lparr>
           baseURL :=
             js_or (js_or (baseURL config) (env ''SILICONFLOW_API_BASE_URL''))
                   (Some ''https://api.siliconflow.com/v1''),
           model :=
             js_or (js_or (model config) (env ''SILICONFLOW_DEFAULT_MODEL''))
                   (Some ''siliconflow-default'')\<rparr>)"

section \<open>Properties\<close>

subsection \<open>The substring test\<close>




subsection \<open>Release of the registry entry\<close>

lemma register_request_fst: "fst (register_request r st) = length (signals st)"
  by (simp add: register_request_def new_AbortController_def)

lemma register_request_snd:
  "snd (register_request r st) =
     st\<lparr>signals := signals st @ [False], activeRequests := (activeRequests st)(r \<mapsto> length (signals st))\<rparr>"
  by (simp add: register_request_def new_AbortController_def activeRequests_set_def)

lemma cleanupRequest_released: "r \<notin> dom (activeRequests (cleanupRequest r st))"
  by (simp add: cleanupRequest_def)

lemma askLLMText_catch_released: "r \<notin> dom (activeRequests (snd (askLLMText_catch e r st)))"
  by (simp add: askLLMText_catch_def Let_def cleanupRequest_released split: js_value.split)

lemma askTool_catch_released: "r \<notin> dom (activeRequests (snd (askTool_catch e r st)))"
  by (simp add: askTool_catch_def Let_def cleanupRequest_released split: completion.split)

lemma askLLMTextStream_catch_released: "r \<notin> dom (activeRequests (snd (askLLMTextStream_catch e r st)))"
  by (simp add: askLLMTextStream_catch_def Let_def cleanupRequest_released split: js_value.split)

lemma askLLMText_released: "r \<notin> dom (activeRequests (snd (askLLMText site ms r st)))"
  by (simp add: askLLMText_def Let_def split_beta askLLMText_catch_released cleanupRequest_released
      split: backend_call.split)

lemma askTool_released: "r \<notin> dom (activeRequests (snd (askTool site ms tools r tc st)))"
  by (simp add: askTool_def Let_def split_beta askTool_catch_released cleanupRequest_released
      split: backend_call.split)

lemma askLLMTextStream_released: "r \<notin> dom (activeRequests (snd (askLLMTextStream site ms r st)))"
  by (simp add: askLLMTextStream_def Let_def split_beta askLLMTextStream_catch_released cleanupRequest_released
      split: backend_call.split)

lemma consume_not_registered:
  "r \<notin> dom (activeRequests st) \<Longrightarrow> r \<notin> dom (activeRequests (snd (consume site ms r calls (g, st))))"
proof (induction calls arbitrary: g st)
  case Nil
  then show ?case by simp
next
  case (Cons call calls)
  obtain res g' st' where step: "generator_call site ms r call (g, st) = (res, g', st')"
    by (cases "generator_call site ms r call (g, st)") auto
  have "r \<notin> dom (activeRequests st')"
  proof (cases g)
    case Completed
    with step Cons.prems show ?thesis by (simp add: generator_call_def)
  next
    case Suspended_start
    show ?thesis
    proof (cases call)
      case Call_return
      with step Suspended_start Cons.prems show ?thesis by (simp add: generator_call_def)
    next
      case Call_next
      with step Suspended_start have "st' = snd (askLLMTextStream site ms r st)"
        by (auto simp: generator_call_def split: prod.splits completion.splits)
      then show ?thesis using askLLMTextStream_released by simp
    qed
  qed
  then show ?case using Cons.IH step by simp
qed

lemma consume_started:
  "r \<notin> dom (activeRequests (snd (consume site ms r (Call_next # calls) (Suspended_start, st))))"
proof -
  obtain run st' where run: "askLLMTextStream site ms r st = (run, st')"
    by (cases "askLLMTextStream site ms r st") auto
  then have rel: "r \<notin> dom (activeRequests st')"
    using askLLMTextStream_released [of r site ms st] by simp
  have "snd (generator_call site ms r Call_next (Suspended_start, st)) = (Completed, st')"
    using run by (simp add: generator_call_def split: completion.split)
  then show ?thesis using rel consume_not_registered by simp
qed

text \<open>
  Claim C1. Whatever happens at the backend call site (it resolves, it rejects with any
  thrown value, the request is cancelled meanwhile), and whatever the registry held before,
  the registry no longer contains the request identifier once \<open>askLLMText\<close>, \<open>askTool\<close> or
  the body of \<open>askLLMTextStream\<close> has finished. The same holds for a consumer of the stream
  that starts the generator and then makes any further calls, among them an early
  \<^verbatim>\<open>return()\<close>: the body has no suspension point, so it has released the entry when the
  first \<^verbatim>\<open>next()\<close> settles.
\<close>

theorem registry_released:
  "requestId \<notin> dom (activeRequests (snd (askLLMText site messages requestId st))) \<and>
   requestId \<notin> dom (activeRequests
     (snd (askTool site messages tools requestId toolChoice st :: 'tc llm_response completion \<times> provider))) \<and>
   requestId \<notin> dom (activeRequests (snd (askLLMTextStream site messages requestId st))) \<and>
   requestId \<notin> dom (activeRequests (snd (consume site messages requestId (Call_next # calls) (Suspended_start, st))))"
  by (intro conjI askLLMText_released askTool_released askLLMTextStream_released consume_started)

subsection \<open>Outcomes of the operations\<close>

text \<open>
  The completion of each operation, as a function of what happens at the call site. The
  error thrown at the checkpoint has the message \<^verbatim>\<open>Request aborted\<close>, which the handlers
  classify as a cancellation.
\<close>

lemma request_aborted_includes: "str_includes ''Request aborted'' ''aborted''"
  by simp

lemma checkpoint_reads_cancel:
  "signal_aborted (fst (register_request r st))
     (pending_call site (fst (register_request r st)) (snd (register_request r st)))
   = cancel_signalled site"
  by (simp add: register_request_fst register_request_snd pending_call_def abort_def signal_aborted_def)

lemma askLLMText_catch_outcome:
  "fst (askLLMText_catch e r st) =
     (if \<exists>name msg. e = Error_instance name msg \<and> (name = ''AbortError'' \<or> str_includes msg ''aborted'')
      then Return []
      else case template_literal e of
             Return converted \<Rightarrow> Throw (new_Error (''Failed to get response from SiliconFlow: '' @ converted))
           | Throw type_error \<Rightarrow> Throw type_error)"
  by (cases e) (simp_all add: askLLMText_catch_def Let_def del: str_includes.simps)

lemma askLLMText_outcome:
  "fst (askLLMText site ms r st) =
     (case settled site of
        Rejects e \<Rightarrow> fst (askLLMText_catch e r st)
      | Resolves \<Rightarrow> Return [])"
proof (cases "settled site")
  case Resolves
  then show ?thesis
    using checkpoint_reads_cancel [of r st site]
    by (simp add: askLLMText_def Let_def split_beta askLLMText_catch_outcome new_Error_def
        request_aborted_includes del: str_includes.simps)
next
  case (Rejects e)
  then show ?thesis
    by (simp add: askLLMText_def Let_def split_beta askLLMText_catch_outcome)
qed

lemma askTool_catch_outcome:
  "fst (askTool_catch e r st) =
     (case (case e of Error_instance name msg \<Rightarrow> Return msg | _ \<Rightarrow> String_call e) of
        Throw type_error \<Rightarrow> Throw type_error
      | Return errorMessage \<Rightarrow>
          if (case e of Error_instance name msg \<Rightarrow> name | _ \<Rightarrow> ''Unknown'') = ''AbortError''
             \<or> str_includes errorMessage ''aborted''
          then Return \<lparr>content = [], tool_calls = None\<rparr>
          else Throw (new_Error (''Failed to get tool response from SiliconFlow: '' @ errorMessage)))"
  by (cases e) (simp_all add: askTool_catch_def Let_def del: str_includes.simps)

lemma askTool_outcome:
  "fst (askTool site ms tools r tc st) =
     (case settled site of
        Rejects e \<Rightarrow> fst (askTool_catch e r st)
      | Resolves \<Rightarrow>
          if cancel_signalled site then Return \<lparr>content = [], tool_calls = None\<rparr>
          else Return \<lparr>content = [], tool_calls = Some []\<rparr>)"
proof (cases "settled site")
  case Resolves
  then show ?thesis
    using checkpoint_reads_cancel [of r st site]
    by (simp add: askTool_def Let_def split_beta askTool_catch_outcome new_Error_def
        request_aborted_includes del: str_includes.simps)
next
  case (Rejects e)
  then show ?thesis
    by (simp add: askTool_def Let_def split_beta askTool_catch_outcome del: str_includes.simps)
qed

lemma askLLMTextStream_catch_outcome:
  "fst (askLLMTextStream_catch e r st) =
     (if \<exists>name msg. e = Error_instance name msg \<and> (name = ''AbortError'' \<or> str_includes msg ''aborted'')
      then \<lparr>fragments = [], finished = Return ()\<rparr>
      else \<lparr>fragments = [], finished =
              (case template_literal e of
                 Return converted \<Rightarrow>
                   Throw (new_Error (''Failed to get stream response from SiliconFlow: '' @ converted))
               | Throw type_error \<Rightarrow> Throw type_error)\<rparr>)"
  by (cases e) (simp_all add: askLLMTextStream_catch_def Let_def del: str_includes.simps)

lemma askLLMTextStream_outcome:
  "fst (askLLMTextStream site ms r st) =
     (case settled site of
        Rejects e \<Rightarrow> fst (askLLMTextStream_catch e r st)
      | Resolves \<Rightarrow> \<lparr>fragments = [], finished = Return ()\<rparr>)"
  by (cases "settled site")
     (simp_all add: askLLMTextStream_def Let_def split_beta askLLMTextStream_catch_outcome)

text \<open>The state an operation leaves behind does not depend on how it completes.\<close>

lemma askLLMText_catch_state: "snd (askLLMText_catch e r st) = cleanupRequest r st"
  by (simp add: askLLMText_catch_def Let_def split: js_value.split)

lemma askTool_catch_state: "snd (askTool_catch e r st) = cleanupRequest r st"
  by (simp add: askTool_catch_def Let_def split: completion.split)

lemma askLLMTextStream_catch_state: "snd (askLLMTextStream_catch e r st) = cleanupRequest r st"
  by (simp add: askLLMTextStream_catch_def Let_def split: js_value.split)

lemma askLLMText_state:
  "snd (askLLMText site ms r st) =
     cleanupRequest r (pending_call site (fst (register_request r st)) (snd (register_request r st)))"
  by (simp add: askLLMText_def Let_def split_beta askLLMText_catch_state split: backend_call.split)

lemma askTool_state:
  "snd (askTool site ms tools r tc st) =
     cleanupRequest r (pending_call site (fst (register_request r st)) (snd (register_request r st)))"
  by (simp add: askTool_def Let_def split_beta askTool_catch_state split: backend_call.split)

lemma askLLMTextStream_state:
  "snd (askLLMTextStream site ms r st) =
     cleanupRequest r (pending_call site (fst (register_request r st)) (snd (register_request r st)))"
  by (simp add: askLLMTextStream_def Let_def split_beta askLLMTextStream_catch_state split: backend_call.split)

lemma signal_aborted_cleanupRequest: "signal_aborted c (cleanupRequest r st) = signal_aborted c st"
  by (simp add: signal_aborted_def cleanupRequest_def)

subsection \<open>Reuse of a request identifier\<close>

text \<open>
  Claim C2, as stated, does not hold. With \<^verbatim>\<open>req-1\<close> registered under controller 0, a
  second operation with the same identifier stores the new controller 1 under it and
  returns its normal result; nothing is thrown. The provider has no check for an identifier
  that is already present and no error of that kind.
\<close>

theorem duplicate_request_not_rejected:
  "activeRequests \<lparr>activeRequests = [''req-1'' \<mapsto> 0], signals = [False]\<rparr> ''req-1'' = Some 0 \<and>
   fst (register_request ''req-1'' \<lparr>activeRequests = [''req-1'' \<mapsto> 0], signals = [False]\<rparr>) = 1 \<and>
   activeRequests (snd (register_request ''req-1'' \<lparr>activeRequests = [''req-1'' \<mapsto> 0], signals = [False]\<rparr>))
     ''req-1'' = Some 1 \<and>
   fst (askLLMText \<lparr>cancel_signalled = False, settled = Resolves\<rparr> ([] :: (string, string) message list)
         ''req-1'' \<lparr>activeRequests = [''req-1'' \<mapsto> 0], signals = [False]\<rparr>) = Return [] \<and>
   fst (askTool \<lparr>cancel_signalled = False, settled = Resolves\<rparr> ([] :: (string, string) message list)
         ([] :: unit list) ''req-1'' None \<lparr>activeRequests = [''req-1'' \<mapsto> 0], signals = [False]\<rparr>)
     = Return (\<lparr>content = [], tool_calls = Some []\<rparr> :: unit llm_response)"
  by (simp add: register_request_fst register_request_snd askLLMText_outcome askTool_outcome)

text \<open>
  Claim C2, amended. For every request identifier that is already present in the registry,
  starting a second operation with it does not fail: the registration creates a fresh
  controller, whose signal is not aborted, and stores it under the identifier in place of
  the earlier one, and each of the three operations then completes exactly as it does when
  the identifier is not registered.
\<close>

theorem register_request_overwrites:
  assumes "activeRequests st requestId = Some earlier" and "earlier < length (signals st)"
  shows "fst (register_request requestId st) \<noteq> earlier \<and>
         activeRequests (snd (register_request requestId st)) requestId = Some (fst (register_request requestId st)) \<and>
         \<not> signal_aborted (fst (register_request requestId st)) (snd (register_request requestId st)) \<and>
         fst (askLLMText site messages requestId st)
           = fst (askLLMText site messages requestId (cleanupRequest requestId st)) \<and>
         fst (askTool site messages tools requestId toolChoice st :: 'tc llm_response completion \<times> provider)
           = fst (askTool site messages tools requestId toolChoice (cleanupRequest requestId st)) \<and>
         fst (askLLMTextStream site messages requestId st)
           = fst (askLLMTextStream site messages requestId (cleanupRequest requestId st))"
  using assms
  by (simp add: register_request_fst register_request_snd signal_aborted_def
      askLLMText_outcome askTool_outcome askLLMTextStream_outcome
      askLLMText_catch_outcome askTool_catch_outcome askLLMTextStream_catch_outcome del: str_includes.simps
      split: backend_call.split)

theorem register_request_overwrites_witness:
  "fst (register_request ''req-1'' \<lparr>activeRequests = [''req-1'' \<mapsto> 0], signals = [False]\<rparr>) \<noteq> 0 \<and>
   activeRequests (snd (register_request ''req-1'' \<lparr>activeRequests = [''req-1'' \<mapsto> 0], signals = [False]\<rparr>))
     ''req-1'' = Some 1"
proof -
  have present: "activeRequests \<lparr>activeRequests = [''req-1'' \<mapsto> 0], signals = [False]\<rparr> ''req-1'' = Some 0"
    by simp
  have created: "0 < length (signals \<lparr>activeRequests = [''req-1'' \<mapsto> 0], signals = [False]\<rparr>)"
    by simp
  show ?thesis
    using register_request_overwrites
      [where 'tc = unit, OF present created,
        of "\<lparr>cancel_signalled = False, settled = Resolves\<rparr>" "[] :: (string, string) message list"
           "[] :: unit list" None]
    by (simp add: register_request_fst)
qed

subsection \<open>Cancellation\<close>

text \<open>
  Claim C3. When the exception that reaches the handler is an abort signal, the operation
  returns its neutral result and does not throw. An abort signal is an \<^verbatim>\<open>Error\<close> named
  \<^verbatim>\<open>AbortError\<close> or one whose message contains \<^verbatim>\<open>aborted\<close>, thrown by the backend call, or
  the error that the operation itself throws at its checkpoint when the signal of its
  controller is set. The test for cancellation comes before the wrapping into a failure, so
  an error that the backend call throws and that also passes the test is a cancellation.
\<close>

theorem abort_classified_as_cancellation:
  assumes "settled site = Rejects (Error_instance name msg) \<and> (name = ''AbortError'' \<or> str_includes msg ''aborted'')
           \<or> settled site = Resolves \<and> cancel_signalled site"
  shows "fst (askLLMText site messages requestId st) = Return [] \<and>
         fst (askTool site messages tools requestId toolChoice st) = Return \<lparr>content = [], tool_calls = None\<rparr> \<and>
         fst (askLLMTextStream site messages requestId st) = \<lparr>fragments = [], finished = Return ()\<rparr>"
  using assms
  by (auto simp: askLLMText_outcome askTool_outcome askLLMTextStream_outcome
      askLLMText_catch_outcome askTool_catch_outcome askLLMTextStream_catch_outcome
      simp del: str_includes.simps)

theorem abort_classified_as_cancellation_witness:
  "fst (askLLMText \<lparr>cancel_signalled = False, settled = Rejects (Error_instance ''AbortError'' ''The operation failed'')\<rparr>
         ([] :: (string, string) message list) ''req-1'' \<lparr>activeRequests = Map.empty, signals = []\<rparr>) = Return [] \<and>
   fst (askTool \<lparr>cancel_signalled = False, settled = Rejects (Error_instance ''AbortError'' ''The operation failed'')\<rparr>
         ([] :: (string, string) message list) ([] :: unit list) ''req-1'' None
         \<lparr>activeRequests = Map.empty, signals = []\<rparr>)
     = Return (\<lparr>content = [], tool_calls = None\<rparr> :: unit llm_response) \<and>
   fst (askLLMTextStream \<lparr>cancel_signalled = False, settled = Rejects (Error_instance ''AbortError'' ''The operation failed'')\<rparr>
         ([] :: (string, string) message list) ''req-1'' \<lparr>activeRequests = Map.empty, signals = []\<rparr>)
     = \<lparr>fragments = [], finished = Return ()\<rparr>"
  using abort_classified_as_cancellation
    [of "\<lparr>cancel_signalled = False, settled = Rejects (Error_instance ''AbortError'' ''The operation failed'')\<rparr>"
        "''AbortError''" "''The operation failed''"
        "[] :: (string, string) message list" "''req-1''" "\<lparr>activeRequests = Map.empty, signals = []\<rparr>"
        "[] :: unit list" None]
  by simp

text \<open>
  Claim C4, as stated, does not hold. The controller is created inside the operation, so
  its signal can be set at the earliest while the backend call is pending, and the only
  check of the signal comes after the call site. When the request is cancelled and the
  call then rejects with an error that is not abort-like, the checkpoint is never reached
  and each of the three operations throws a failure.
\<close>

theorem cancelled_call_rejection_throws:
  "fst (askLLMText \<lparr>cancel_signalled = True, settled = Rejects (Error_instance ''Error'' ''socket hang up'')\<rparr>
         ([] :: (string, string) message list) ''req-1'' \<lparr>activeRequests = Map.empty, signals = []\<rparr>)
     = Throw (Error_instance ''Error'' ''Failed to get response from SiliconFlow: Error: socket hang up'') \<and>
   fst (askTool \<lparr>cancel_signalled = True, settled = Rejects (Error_instance ''Error'' ''socket hang up'')\<rparr>
         ([] :: (string, string) message list) ([] :: unit list) ''req-1'' None
         \<lparr>activeRequests = Map.empty, signals = []\<rparr> :: unit llm_response completion \<times> provider)
     = Throw (Error_instance ''Error'' ''Failed to get tool response from SiliconFlow: socket hang up'') \<and>
   finished (fst (askLLMTextStream
         \<lparr>cancel_signalled = True, settled = Rejects (Error_instance ''Error'' ''socket hang up'')\<rparr>
         ([] :: (string, string) message list) ''req-1'' \<lparr>activeRequests = Map.empty, signals = []\<rparr>))
     = Throw (Error_instance ''Error'' ''Failed to get stream response from SiliconFlow: Error: socket hang up'')"
  by (simp add: askLLMText_outcome askLLMText_catch_outcome askTool_outcome askTool_catch_outcome
      askLLMTextStream_outcome askLLMTextStream_catch_outcome new_Error_def Error_toString_def)

text \<open>
  Claim C4, amended. When the request's cancellation signal is set and the backend call
  site does not throw, so that the checkpoint after it is reached, \<open>askLLMText\<close> and
  \<open>askTool\<close> find the signal set at the checkpoint and return their neutral results, the
  empty text and the response \<^verbatim>\<open>{ content: '' }\<close>; without the cancellation \<open>askTool\<close> would
  have returned \<^verbatim>\<open>{ content: '', tool_calls: [] }\<close>. \<open>askLLMTextStream\<close> has no checkpoint: it
  does not read the signal, and it produces the empty sequence and ends normally, as it
  does without the cancellation. None of the three throws in these runs.
\<close>

theorem cancel_at_checkpoint_neutral:
  assumes "settled site = Resolves" and "cancel_signalled site"
  shows "signal_aborted (fst (register_request requestId st))
           (pending_call site (fst (register_request requestId st)) (snd (register_request requestId st))) \<and>
         fst (askLLMText site messages requestId st) = Return [] \<and>
         fst (askTool site messages tools requestId toolChoice st :: 'tc llm_response completion \<times> provider)
           = Return \<lparr>content = [], tool_calls = None\<rparr> \<and>
         fst (askTool (site\<lparr>cancel_signalled := False\<rparr>) messages tools requestId toolChoice st
               :: 'tc llm_response completion \<times> provider)
           = Return \<lparr>content = [], tool_calls = Some []\<rparr> \<and>
         fst (askLLMTextStream site messages requestId st) = \<lparr>fragments = [], finished = Return ()\<rparr> \<and>
         fst (askLLMTextStream (site\<lparr>cancel_signalled := False\<rparr>) messages requestId st)
           = fst (askLLMTextStream site messages requestId st) \<and>
         fst (generator_call site messages requestId Call_next (Suspended_start, st)) = Done"
proof -
  have seen: "signal_aborted (fst (register_request requestId st))
           (pending_call site (fst (register_request requestId st)) (snd (register_request requestId st)))"
    using checkpoint_reads_cancel [of requestId st site] assms(2) by simp
  have stream: "fst (askLLMTextStream site messages requestId st) = \<lparr>fragments = [], finished = Return ()\<rparr>"
    using assms(1) by (simp add: askLLMTextStream_outcome)
  then have first_next: "fst (generator_call site messages requestId Call_next (Suspended_start, st)) = Done"
    by (cases "askLLMTextStream site messages requestId st") (simp add: generator_call_def)
  show ?thesis
    using assms seen stream first_next
    by (simp add: askLLMText_outcome askTool_outcome askLLMTextStream_outcome)
qed

theorem cancel_at_checkpoint_neutral_witness:
  "fst (askLLMText \<lparr>cancel_signalled = True, settled = Resolves\<rparr>
         ([] :: (string, string) message list) ''req-1'' \<lparr>activeRequests = Map.empty, signals = []\<rparr>) = Return [] \<and>
   fst (askTool \<lparr>cancel_signalled = True, settled = Resolves\<rparr>
         ([] :: (string, string) message list) ([] :: unit list) ''req-1'' None
         \<lparr>activeRequests = Map.empty, signals = []\<rparr>)
     = Return (\<lparr>content = [], tool_calls = None\<rparr> :: unit llm_response) \<and>
   fst (askLLMTextStream \<lparr>cancel_signalled = True, settled = Resolves\<rparr>
         ([] :: (string, string) message list) ''req-1'' \<lparr>activeRequests = Map.empty, signals = []\<rparr>)
     = \<lparr>fragments = [], finished = Return ()\<rparr> \<and>
   fst (generator_call \<lparr>cancel_signalled = True, settled = Resolves\<rparr>
         ([] :: (string, string) message list) ''req-1'' Call_next
         (Suspended_start, \<lparr>activeRequests = Map.empty, signals = []\<rparr>)) = Done"
proof -
  have resolved: "settled \<lparr>cancel_signalled = True, settled = Resolves\<rparr> = Resolves"
    by simp
  have cancelled: "cancel_signalled \<lparr>cancel_signalled = True, settled = Resolves\<rparr>"
    by simp
  show ?thesis
    using cancel_at_checkpoint_neutral
      [where 'tc = unit, OF resolved cancelled, of "''req-1''" "\<lparr>activeRequests = Map.empty, signals = []\<rparr>"
          "[] :: (string, string) message list" "[] :: unit list" None]
    by simp
qed

text \<open>
  Claim C10. The handlers decide on the text of the error alone. Take a request that
  nobody cancelled, so that the signal of its own controller is never set, and let the
  backend call throw an \<^verbatim>\<open>Error\<close> whose name is \<^verbatim>\<open>AbortError\<close> or whose message contains
  \<^verbatim>\<open>aborted\<close>: each of the three operations returns its neutral result, and the signal of the
  request's controller is still not set afterwards.
\<close>

theorem cancellation_by_surface_text:
  assumes "name = ''AbortError'' \<or> str_includes msg ''aborted''"
    and "site = \<lparr>cancel_signalled = False, settled = Rejects (Error_instance name msg)\<rparr>"
  shows "fst (askLLMText site messages requestId st) = Return [] \<and>
         \<not> signal_aborted (fst (register_request requestId st)) (snd (askLLMText site messages requestId st)) \<and>
         fst (askTool site messages tools requestId toolChoice st :: 'tc llm_response completion \<times> provider)
           = Return \<lparr>content = [], tool_calls = None\<rparr> \<and>
         \<not> signal_aborted (fst (register_request requestId st))
             (snd (askTool site messages tools requestId toolChoice st :: 'tc llm_response completion \<times> provider)) \<and>
         fst (askLLMTextStream site messages requestId st) = \<lparr>fragments = [], finished = Return ()\<rparr> \<and>
         \<not> signal_aborted (fst (register_request requestId st)) (snd (askLLMTextStream site messages requestId st))"
proof -
  have quiet: "\<not> signal_aborted (fst (register_request requestId st))
                 (pending_call site (fst (register_request requestId st)) (snd (register_request requestId st)))"
    using checkpoint_reads_cancel [of requestId st site] assms(2) by simp
  have txt_res: "fst (askLLMText site messages requestId st) = Return []"
    using assms by (auto simp: askLLMText_outcome askLLMText_catch_outcome simp del: str_includes.simps)
  have tool_res: "fst (askTool site messages tools requestId toolChoice st) = Return \<lparr>content = [], tool_calls = None\<rparr>"
    using assms by (auto simp: askTool_outcome askTool_catch_outcome simp del: str_includes.simps)
  have stream_res: "fst (askLLMTextStream site messages requestId st) = \<lparr>fragments = [], finished = Return ()\<rparr>"
    using assms by (auto simp: askLLMTextStream_outcome askLLMTextStream_catch_outcome simp del: str_includes.simps)
  show ?thesis
    using quiet txt_res tool_res stream_res
    by (simp add: askLLMText_state askTool_state askLLMTextStream_state signal_aborted_cleanupRequest)
qed

theorem cancellation_by_surface_text_witness:
  "fst (askLLMText \<lparr>cancel_signalled = False,
                    settled = Rejects (Error_instance ''Error'' ''upstream connection aborted by peer'')\<rparr>
         ([] :: (string, string) message list) ''req-1'' \<lparr>activeRequests = Map.empty, signals = []\<rparr>) = Return [] \<and>
   \<not> signal_aborted 0
       (snd (askLLMText \<lparr>cancel_signalled = False,
                          settled = Rejects (Error_instance ''Error'' ''upstream connection aborted by peer'')\<rparr>
         ([] :: (string, string) message list) ''req-1'' \<lparr>activeRequests = Map.empty, signals = []\<rparr>)) \<and>
   fst (askTool \<lparr>cancel_signalled = False,
                 settled = Rejects (Error_instance ''Error'' ''upstream connection aborted by peer'')\<rparr>
         ([] :: (string, string) message list) ([] :: unit list) ''req-1'' None
         \<lparr>activeRequests = Map.empty, signals = []\<rparr>)
     = Return (\<lparr>content = [], tool_calls = None\<rparr> :: unit llm_response) \<and>
   fst (askLLMTextStream \<lparr>cancel_signalled = False,
                          settled = Rejects (Error_instance ''Error'' ''upstream connection aborted by peer'')\<rparr>
         ([] :: (string, string) message list) ''req-1'' \<lparr>activeRequests = Map.empty, signals = []\<rparr>)
     = \<lparr>fragments = [], finished = Return ()\<rparr>"
proof -
  have surface: "''Error'' = ''AbortError'' \<or> str_includes ''upstream connection aborted by peer'' ''aborted''"
    by simp
  show ?thesis
    using cancellation_by_surface_text
      [where 'tc = unit, OF surface refl, of "[] :: (string, string) message list" "''req-1''"
          "\<lparr>activeRequests = Map.empty, signals = []\<rparr>" "[] :: unit list" None]
    by (simp add: register_request_fst)
qed

subsection \<open>Backend failures\<close>




text \<open>
  The difference between the handlers on a thrown value that is not an \<^verbatim>\<open>Error\<close>: the string
  \<^verbatim>\<open>aborted\<close>, thrown as it is, is a failure for \<open>askLLMText\<close> and a cancellation for
  \<open>askTool\<close>.
\<close>

lemma non_error_value_handling:
  "fst (askLLMText \<lparr>cancel_signalled = False, settled = Rejects (Non_error ''aborted'')\<rparr>
         ([] :: (string, string) message list) ''req-1'' \<lparr>activeRequests = Map.empty, signals = []\<rparr>)
     = Throw (Error_instance ''Error'' ''Failed to get response from SiliconFlow: aborted'') \<and>
   fst (askTool \<lparr>cancel_signalled = False, settled = Rejects (Non_error ''aborted'')\<rparr>
         ([] :: (string, string) message list) ([] :: unit list) ''req-1'' None
         \<lparr>activeRequests = Map.empty, signals = []\<rparr>)
     = Return (\<lparr>content = [], tool_calls = None\<rparr> :: unit llm_response)"
  by (simp add: askLLMText_outcome askLLMText_catch_outcome askTool_outcome askTool_catch_outcome new_Error_def)

subsection \<open>The response of askTool\<close>

text \<open>
  Claim C7, as stated, does not hold: on the cancellation path \<open>askTool\<close> returns the object
  \<^verbatim>\<open>{ content: '' }\<close>, which has no \<^verbatim>\<open>tool_calls\<close> property.
\<close>

theorem askTool_cancelled_omits_tool_calls:
  "fst (askTool \<lparr>cancel_signalled = True, settled = Resolves\<rparr>
         ([] :: (string, string) message list) ([] :: unit list) ''req-1'' None
         \<lparr>activeRequests = Map.empty, signals = []\<rparr>)
     = Return (\<lparr>content = [], tool_calls = None\<rparr> :: unit llm_response)"
  by (simp add: askTool_outcome)

text \<open>
  Claim C7, amended. Every response returned by \<open>askTool\<close> has a \<^verbatim>\<open>content\<close> property, which
  is the empty string. When the operation completes without cancellation the response also
  has \<^verbatim>\<open>tool_calls\<close>, holding the empty sequence; on the cancellation path the response has
  no \<^verbatim>\<open>tool_calls\<close> property.
\<close>

theorem askTool_response_shape:
  assumes "fst (askTool site messages tools requestId toolChoice st) = Return response"
  shows "content response = [] \<and>
         tool_calls response = (if settled site = Resolves \<and> \<not> cancel_signalled site then Some [] else None)"
  using assms
  by (cases "settled site")
     (auto simp: askTool_outcome askTool_catch_outcome simp del: str_includes.simps
        split: if_splits completion.splits)

theorem askTool_response_shape_witness:
  "content (\<lparr>content = [], tool_calls = Some []\<rparr> :: unit llm_response) = [] \<and>
   tool_calls (\<lparr>content = [], tool_calls = Some []\<rparr> :: unit llm_response) = Some []"
proof -
  have returned:
    "fst (askTool \<lparr>cancel_signalled = False, settled = Resolves\<rparr>
           ([] :: (string, string) message list) ([] :: unit list) ''req-1'' (Some Auto)
           \<lparr>activeRequests = Map.empty, signals = []\<rparr>)
       = Return (\<lparr>content = [], tool_calls = Some []\<rparr> :: unit llm_response)"
    by (simp add: askTool_outcome)
  show ?thesis using askTool_response_shape [OF returned] by simp
qed

text \<open>
  Claim C9. With \<^verbatim>\<open>toolChoice\<close> set to \<^verbatim>\<open>none\<close>, no response that \<open>askTool\<close> returns carries a
  tool call: the sequence of tool calls read from the response, an absent property counting
  as no tool calls, is empty.
\<close>

theorem askTool_none_no_tool_calls:
  assumes "fst (askTool site messages tools requestId (Some No_tool) st) = Return response"
  shows "(case tool_calls response of None \<Rightarrow> [] | Some calls \<Rightarrow> calls) = []"
  using assms
  by (cases "settled site")
     (auto simp: askTool_outcome askTool_catch_outcome simp del: str_includes.simps
        split: if_splits completion.splits)

theorem askTool_none_no_tool_calls_witness:
  "(case tool_calls (\<lparr>content = [], tool_calls = Some []\<rparr> :: unit llm_response) of
      None \<Rightarrow> [] | Some calls \<Rightarrow> calls) = []"
proof -
  have returned:
    "fst (askTool \<lparr>cancel_signalled = False, settled = Resolves\<rparr>
           ([] :: (string, string) message list) ([] :: unit list) ''req-1'' (Some No_tool)
           \<lparr>activeRequests = Map.empty, signals = []\<rparr>)
       = Return (\<lparr>content = [], tool_calls = Some []\<rparr> :: unit llm_response)"
    by (simp add: askTool_outcome)
  show ?thesis using askTool_none_no_tool_calls [OF returned] by simp
qed

subsection \<open>Configuration defaults\<close>

text \<open>
  Claim C5. The constructor resolves \<^verbatim>\<open>baseURL\<close> and \<^verbatim>\<open>model\<close> in a fixed order: the value
  in the explicit configuration when it is a string that is not empty, otherwise the value
  of the environment variable \<^verbatim>\<open>SILICONFLOW_API_BASE_URL\<close> or \<^verbatim>\<open>SILICONFLOW_DEFAULT_MODEL\<close>
  when that is a string that is not empty, otherwise the literal. With no explicit
  configuration and \<^verbatim>\<open>SILICONFLOW_DEFAULT_MODEL\<close> set to \<^verbatim>\<open>test-model\<close>, the model
  is \<^verbatim>\<open>test-model\<close>.
\<close>

theorem constructor_precedence:
  "baseURL (SiliconFlowProvider_constructor env arg) =
     (if \<exists>config url. arg = Some config \<and> baseURL config = Some url \<and> url \<noteq> []
      then baseURL (the arg)
      else if \<exists>url. env ''SILICONFLOW_API_BASE_URL'' = Some url \<and> url \<noteq> []
      then env ''SILICONFLOW_API_BASE_URL''
      else Some ''https://api.siliconflow.com/v1'') \<and>
   model (SiliconFlowProvider_constructor env arg) =
     (if \<exists>config name. arg = Some config \<and> model config = Some name \<and> name \<noteq> []
      then model (the arg)
      else if \<exists>name. env ''SILICONFLOW_DEFAULT_MODEL'' = Some name \<and> name \<noteq> []
      then env ''SILICONFLOW_DEFAULT_MODEL''
      else Some ''siliconflow-default'') \<and>
   (arg = None \<and> env ''SILICONFLOW_DEFAULT_MODEL'' = Some ''test-model'' \<longrightarrow>
      model (SiliconFlowProvider_constructor env arg) = Some ''test-model'')"
  by (auto simp: SiliconFlowProvider_constructor_def js_or_def Let_def split: option.splits)

theorem constructor_precedence_witness:
  "model (SiliconFlowProvider_constructor [''SILICONFLOW_DEFAULT_MODEL'' \<mapsto> ''test-model'']
            (None :: unit llm_config option)) = Some ''test-model''"
  using constructor_precedence
    [of "[''SILICONFLOW_DEFAULT_MODEL'' \<mapsto> ''test-model'']" "None :: unit llm_config option"]
  by simp

subsection \<open>Message formatting\<close>

text \<open>
  Claim C8. \<open>formatMessages\<close> returns a list of the same length as its argument, in the
  same order: the record at each position has the role and the content of the message at
  that position, and nothing else.
\<close>

theorem formatMessages_projection:
  "length (formatMessages messages) = length messages \<and>
   (\<forall>i < length messages.
      role (formatMessages messages ! i) = role (messages ! i) \<and>
      message.content (formatMessages messages ! i) = message.content (messages ! i))"
  by (simp add: formatMessages_def)

theorem formatMessages_projection_witness:
  "length (formatMessages [\<lparr>role = ''system'', message.content = ''You are helpful'', \<dots> = (7::nat)\<rparr>,
                           \<lparr>role = ''user'', message.content = ''hello'', \<dots> = 8\<rparr>]) = 2 \<and>
   role (formatMessages [\<lparr>role = ''system'', message.content = ''You are helpful'', \<dots> = (7::nat)\<rparr>,
                         \<lparr>role = ''user'', message.content = ''hello'', \<dots> = 8\<rparr>] ! 1) = ''user'' \<and>
   message.content (formatMessages [\<lparr>role = ''system'', message.content = ''You are helpful'', \<dots> = (7::nat)\<rparr>,
                         \<lparr>role = ''user'', message.content = ''hello'', \<dots> = 8\<rparr>] ! 1) = ''hello''"
  using formatMessages_projection
    [of "[\<lparr>role = ''system'', message.content = ''You are helpful'', \<dots> = (7::nat)\<rparr>,
          \<lparr>role = ''user'', message.content = ''hello'', \<dots> = 8\<rparr>]"]
  by simp

end
